theory Spec2Isabelle
  imports Complex_Main
begin

section \<open>Audio augmentation transforms of \<^verbatim>\<open>imageProcessing/functions.py\<close>\<close>

text \<open>
  The module defines four randomised waveform transforms (Gaussian and pink noise at a
  drawn signal-to-noise ratio, pitch shift, time shift) behind a common probability gate,
  and two combinators, \<^verbatim>\<open>Compose\<close> and \<^verbatim>\<open>OneOf\<close>.

  Waveforms are numpy arrays: mutable objects that the code passes by reference. They
  live in an explicit store, a call takes and returns a reference, and the process-wide
  random generator is part of the same state. The samples are of a type \<open>'s\<close> that
  the model leaves open, with a zero and a one, and their floating-point arithmetic is
  a parameter: a sample may be finite, infinite or not a number.
\<close>

subsection \<open>Arrays, the store and errors\<close>

datatype dtype = Float16 | Float32 | Float64

record 's ndarray =
  dtype :: dtype
  data :: "'s list"

type_synonym ref = nat

text \<open>
  One cell of the random tape is what one call into the generator consumes: raw bits for
  the uniform draws and a supply of standard-normal variates for the Gaussian ones.
\<close>

record 's cell =
  bits :: nat
  gauss :: "nat \<Rightarrow> 's"

text \<open>
  The store is a list of arrays, a reference is a position in it, and allocation appends.
  Only arrays that the code returns or writes to are allocated; the temporaries of an
  arithmetic expression are not.
\<close>

record 's world =
  heap :: "'s ndarray list"
  rng :: "nat \<Rightarrow> 's cell"

datatype error =
  AssertionError | ValueError | IndexError | NotImplementedError | OverflowError

text \<open>A raise keeps the state it happened in; a return carries a value and the state.\<close>

type_synonym ('s, 'a) result = "(error \<times> 's world) + ('a \<times> 's world)"

text \<open>
  What the module takes from its libraries and does not determine itself. First the
  floating-point arithmetic of numpy and Python, operation by operation as lines 52 to
  57 use it: \<^verbatim>\<open>x ** 2\<close> and \<^verbatim>\<open>np.sqrt(x)\<close> on an element of an array of a
  given dtype, the step of the \<^verbatim>\<open>max\<close> reduction, Python's \<^verbatim>\<open>10 ** x\<close> (which
  raises OverflowError beyond the range of a float, here \<open>None\<close>), \<^verbatim>\<open>/\<close>,
  \<^verbatim>\<open>*\<close>, \<^verbatim>\<open>+\<close>, and the conversion of \<^verbatim>\<open>astype\<close>. Then the spectral
  shaping of the coloured-noise generator and the samples of the pitch shifter.
\<close>

record 's env =
  power2 :: "dtype \<Rightarrow> 's \<Rightarrow> 's"
  sqrt_s :: "dtype \<Rightarrow> 's \<Rightarrow> 's"
  maximum :: "'s \<Rightarrow> 's \<Rightarrow> 's"
  power10 :: "real \<Rightarrow> 's option"
  divide_s :: "'s \<Rightarrow> 's \<Rightarrow> 's"
  times_s :: "'s \<Rightarrow> 's \<Rightarrow> 's"
  plus_s :: "'s \<Rightarrow> 's \<Rightarrow> 's"
  round_to :: "dtype \<Rightarrow> 's \<Rightarrow> 's"
  powerlaw_shape :: "real \<Rightarrow> nat \<Rightarrow> (nat \<Rightarrow> 's) \<Rightarrow> nat \<Rightarrow> 's"
  pitch_kernel :: "int \<Rightarrow> int \<Rightarrow> 's list \<Rightarrow> nat \<Rightarrow> 's"

definition alloc :: "'s ndarray \<Rightarrow> 's world \<Rightarrow> ref \<times> 's world" where
  "alloc a w = (length (heap w), w\<lparr>heap := heap w @ [a]\<rparr>)"

definition arr :: "'s world \<Rightarrow> ref \<Rightarrow> 's ndarray" where
  "arr w r = heap w ! r"

definition store :: "ref \<Rightarrow> 's ndarray \<Rightarrow> 's world \<Rightarrow> 's world" where
  "store r a w = w\<lparr>heap := (heap w)[r := a]\<rparr>"

subsection \<open>The random source\<close>

text \<open>
  Modelled from the spec: the external random source of section 6 (\<^verbatim>\<open>numpy.random\<close>),
  "a uniform random-number source producing values in [0,1) and uniform integers in a
  range; a Gaussian random-number source". Each call consumes one cell of the tape.
\<close>

definition draw :: "'s world \<Rightarrow> 's cell \<times> 's world" where
  "draw w = (rng w 0, w\<lparr>rng := (\<lambda>n. rng w (Suc n))\<rparr>)"

text \<open>
  Modelled from the spec: \<^verbatim>\<open>np.random.rand()\<close>, a 53-bit fraction in [0,1).
\<close>

definition unit_of :: "'s cell \<Rightarrow> real" where
  "unit_of c = real (bits c mod 2 ^ 53) / 2 ^ 53"

definition rand :: "'s world \<Rightarrow> real \<times> 's world" where
  "rand w = (case draw w of (c, w') \<Rightarrow> (unit_of c, w'))"

text \<open>
  Modelled from the spec: \<^verbatim>\<open>np.random.uniform(low, high)\<close>, which is
  \<^verbatim>\<open>low + (high - low) * random_sample()\<close>.
\<close>

definition uniform :: "real \<Rightarrow> real \<Rightarrow> 's world \<Rightarrow> real \<times> 's world" where
  "uniform low high w = (case draw w of (c, w') \<Rightarrow> (low + (high - low) * unit_of c, w'))"

text \<open>
  Modelled from the spec: \<^verbatim>\<open>np.random.randint(low, high)\<close>, an integer of the
  half-open range from \<^verbatim>\<open>low\<close> to \<^verbatim>\<open>high\<close>; an empty range raises ValueError.
\<close>

definition randint_of :: "int \<Rightarrow> int \<Rightarrow> nat \<Rightarrow> int" where
  "randint_of low high k = low + int (k mod nat (high - low))"

definition randint :: "int \<Rightarrow> int \<Rightarrow> 's world \<Rightarrow> ('s, int) result" where
  "randint low high w =
     (if high \<le> low then Inl (ValueError, w)
      else case draw w of (c, w') \<Rightarrow> Inr (randint_of low high (bits c), w'))"

text \<open>
  Modelled from the spec: \<^verbatim>\<open>np.random.choice(n)\<close> for an integer \<^verbatim>\<open>n\<close>, one
  element of \<^verbatim>\<open>arange(n)\<close>; \<^verbatim>\<open>n = 0\<close> raises ValueError.
\<close>

definition choice :: "nat \<Rightarrow> 's world \<Rightarrow> ('s, nat) result" where
  "choice n w =
     (if n = 0 then Inl (ValueError, w)
      else case draw w of (c, w') \<Rightarrow> Inr (bits c mod n, w'))"

text \<open>
  Modelled from the spec: \<^verbatim>\<open>np.random.randn(n)\<close>, \<^verbatim>\<open>n\<close> standard-normal samples.
\<close>

definition randn :: "nat \<Rightarrow> 's world \<Rightarrow> 's list \<times> 's world" where
  "randn n w = (case draw w of (c, w') \<Rightarrow> (map (gauss c) [0..<n], w'))"

text \<open>
  Modelled from the spec: \<^verbatim>\<open>cn.powerlaw_psd_gaussian(exponent, size)\<close>, the
  coloured-noise generator of section 4.5, which "must produce a sequence of the same
  length as the signal"; the shaping itself is the parameter \<^const>\<open>powerlaw_shape\<close>.
\<close>

definition powerlaw_psd_gaussian ::
  "'s env \<Rightarrow> real \<Rightarrow> nat \<Rightarrow> 's world \<Rightarrow> 's list \<times> 's world" where
  "powerlaw_psd_gaussian L exponent n w =
     (case draw w of (c, w') \<Rightarrow> (map (powerlaw_shape L exponent n (gauss c)) [0..<n], w'))"

subsection \<open>Array operations\<close>

text \<open>
  Modelled from the spec: \<^verbatim>\<open>np.roll(a, shift)\<close> on a one-dimensional array. The
  offset is \<^verbatim>\<open>shift % n\<close>; the last \<^verbatim>\<open>offset\<close> elements come first, then the others.
  An empty array stays empty. The result is a new array.
\<close>

definition roll :: "'a list \<Rightarrow> int \<Rightarrow> 'a list" where
  "roll xs shift =
     (if xs = [] then []
      else let k = length xs - nat (shift mod int (length xs)) in drop k xs @ take k xs)"

definition np_roll :: "ref \<Rightarrow> int \<Rightarrow> 's world \<Rightarrow> ref \<times> 's world" where
  "np_roll y shift w = alloc ((arr w y)\<lparr>data := roll (data (arr w y)) shift\<rparr>) w"

text \<open>
  Python's slice bounds: a negative bound counts from the end, and both are clipped to
  the length.
\<close>

definition slice_bound :: "nat \<Rightarrow> int \<Rightarrow> nat" where
  "slice_bound n i = (if i < 0 then nat (max (int n + i) 0) else min (nat i) n)"

text \<open>\<^verbatim>\<open>a[:stop] = v\<close> and \<^verbatim>\<open>a[start:] = v\<close> on the elements.\<close>

definition assign_upto :: "'a list \<Rightarrow> int \<Rightarrow> 'a \<Rightarrow> 'a list" where
  "assign_upto xs stop v =
     (let k = slice_bound (length xs) stop in replicate k v @ drop k xs)"

definition assign_from :: "'a list \<Rightarrow> int \<Rightarrow> 'a \<Rightarrow> 'a list" where
  "assign_from xs start v =
     (let k = slice_bound (length xs) start in take k xs @ replicate (length xs - k) v)"

text \<open>The same two assignments as writes into the array a reference points to.\<close>

definition setitem_upto :: "ref \<Rightarrow> int \<Rightarrow> 's \<Rightarrow> 's world \<Rightarrow> 's world" where
  "setitem_upto r stop v w = store r ((arr w r)\<lparr>data := assign_upto (data (arr w r)) stop v\<rparr>) w"

definition setitem_from :: "ref \<Rightarrow> int \<Rightarrow> 's \<Rightarrow> 's world \<Rightarrow> 's world" where
  "setitem_from r start v w = store r ((arr w r)\<lparr>data := assign_from (data (arr w r)) start v\<rparr>) w"

text \<open>
  \<^verbatim>\<open>a.max()\<close>: the reduction of the array by the library's maximum, from the first
  element on; an empty array has none (numpy raises ValueError).
\<close>

definition np_max :: "'s env \<Rightarrow> 's list \<Rightarrow> 's option" where
  "np_max L xs =
     (case xs of [] \<Rightarrow> None | x # rest \<Rightarrow> Some (fold (\<lambda>v m. maximum L m v) rest x))"

text \<open>
  \<^verbatim>\<open>np.sqrt(a ** 2)\<close>, elementwise, on an array of dtype \<open>dt\<close>: the square is
  taken in the array's own dtype, where it can overflow or underflow, and the root of
  that.
\<close>

definition sqrt_sq :: "'s env \<Rightarrow> dtype \<Rightarrow> 's list \<Rightarrow> 's list" where
  "sqrt_sq L dt xs = map (\<lambda>x. sqrt_s L dt (power2 L dt x)) xs"

text \<open>\<^verbatim>\<open>a.astype(dt)\<close>: every element converted to the format, in a new array.\<close>

definition astype :: "'s env \<Rightarrow> dtype \<Rightarrow> 's list \<Rightarrow> 's ndarray" where
  "astype L dt xs = \<lparr>dtype = dt, data = map (round_to L dt) xs\<rparr>"

text \<open>
  Modelled from the spec: \<^verbatim>\<open>librosa.effects.pitch_shift(y, sr, n_steps)\<close>, the
  pitch-shifting primitive of section 4.6, whose contract is "output length equals input
  length" in the input's numeric representation; the samples are the parameter
  \<^const>\<open>pitch_kernel\<close>. The result is a new array.
\<close>

definition pitch_shift ::
  "'s env \<Rightarrow> ref \<Rightarrow> int \<Rightarrow> int \<Rightarrow> 's world \<Rightarrow> ref \<times> 's world" where
  "pitch_shift L y sr n_steps w =
     alloc ((arr w y)\<lparr>data := map (pitch_kernel L sr n_steps (data (arr w y)))
                                 [0..<length (data (arr w y))]\<rparr>) w"

subsection \<open>The transforms\<close>

text \<open>
  An object of one of the module's classes, with the fields its constructor stores:
  \<open>always_apply\<close> and \<open>p\<close> first, then the class's own. The children of
  \<^verbatim>\<open>Compose\<close> and \<^verbatim>\<open>OneOf\<close> are any callables of the module.
\<close>

datatype transform =
    AudioTransform bool real
  | GaussianNoiseSNR bool real real real
  | PinkNoiseSNR bool real real real
  | PitchShift bool real int int
  | TimeShift bool real int int string
  | Compose "transform list"
  | OneOf "transform list"

text \<open>
  The constructors. Only \<^verbatim>\<open>TimeShift.__init__\<close> checks anything: its
  \<^verbatim>\<open>assert\<close> on the padding mode raises AssertionError.
\<close>

definition AudioTransform_init :: "bool \<Rightarrow> real \<Rightarrow> error + transform" where
  "AudioTransform_init always_apply p = Inr (AudioTransform always_apply p)"

definition GaussianNoiseSNR_init :: "bool \<Rightarrow> real \<Rightarrow> real \<Rightarrow> real \<Rightarrow> error + transform" where
  "GaussianNoiseSNR_init always_apply p min_snr max_snr =
     Inr (GaussianNoiseSNR always_apply p min_snr max_snr)"

definition PinkNoiseSNR_init :: "bool \<Rightarrow> real \<Rightarrow> real \<Rightarrow> real \<Rightarrow> error + transform" where
  "PinkNoiseSNR_init always_apply p min_snr max_snr =
     Inr (PinkNoiseSNR always_apply p min_snr max_snr)"

definition PitchShift_init :: "bool \<Rightarrow> real \<Rightarrow> int \<Rightarrow> int \<Rightarrow> error + transform" where
  "PitchShift_init always_apply p max_steps sr = Inr (PitchShift always_apply p max_steps sr)"

definition TimeShift_init :: "bool \<Rightarrow> real \<Rightarrow> int \<Rightarrow> int \<Rightarrow> string \<Rightarrow> error + transform" where
  "TimeShift_init always_apply p max_shift_second sr padding_mode =
     (if padding_mode \<in> set [''replace'', ''zero'']
      then Inr (TimeShift always_apply p max_shift_second sr padding_mode)
      else Inl AssertionError)"

definition Compose_init :: "transform list \<Rightarrow> error + transform" where
  "Compose_init transforms = Inr (Compose transforms)"

definition OneOf_init :: "transform list \<Rightarrow> error + transform" where
  "OneOf_init transforms = Inr (OneOf transforms)"

subsection \<open>The gate and the apply methods\<close>

text \<open>\<^verbatim>\<open>AudioTransform.__call__\<close>, with the subclass's \<^verbatim>\<open>apply\<close> as an argument.\<close>

definition AudioTransform_call ::
  "bool \<Rightarrow> real \<Rightarrow> (ref \<Rightarrow> 's world \<Rightarrow> ('s, ref) result) \<Rightarrow> ref \<Rightarrow> 's world \<Rightarrow>
     ('s, ref) result" where
  "AudioTransform_call always_apply p apply y w =
     (if always_apply then apply y w
      else case rand w of (r, w') \<Rightarrow>
        if r < p then apply y w' else Inr (y, w'))"

definition AudioTransform_apply :: "ref \<Rightarrow> 's world \<Rightarrow> ('s, ref) result" where
  "AudioTransform_apply y w = Inl (NotImplementedError, w)"

text \<open>\<^verbatim>\<open>np.sqrt(y ** 2).max()\<close> on an array of dtype \<open>dt\<close>.\<close>

definition peak :: "'s env \<Rightarrow> dtype \<Rightarrow> 's list \<Rightarrow> 's option" where
  "peak L dt ys = np_max L (sqrt_sq L dt ys)"

text \<open>\<^verbatim>\<open>y + noise * 1 / a * a_noise\<close>, elementwise on arrays of one length.\<close>

definition add_scaled :: "'s env \<Rightarrow> ('s::one) list \<Rightarrow> 's list \<Rightarrow> 's \<Rightarrow> 's \<Rightarrow> 's list" where
  "add_scaled L ys noise a a_noise =
     map2 (\<lambda>v n. plus_s L v (times_s L (divide_s L (times_s L n 1) a) a_noise)) ys noise"

text \<open>
  The two noise transforms, lines 50 to 59 and 69 to 78, which differ in the generator
  only. The drawn \<^verbatim>\<open>snr\<close> is a Python float, here a real; the peak of the signal is
  taken in the dtype of \<open>y\<close> and the peak of the noise in \<^verbatim>\<open>float64\<close>, the dtype
  of both generators. Line 53 raises OverflowError when \<^verbatim>\<open>10 ** (snr / 20)\<close> is
  beyond the range of a float.
\<close>

definition GaussianNoiseSNR_apply ::
  "('s::one) env \<Rightarrow> real \<Rightarrow> real \<Rightarrow> ref \<Rightarrow> 's world \<Rightarrow> ('s, ref) result" where
  "GaussianNoiseSNR_apply L min_snr max_snr y w =
     (case uniform min_snr max_snr w of (snr, w1) \<Rightarrow>
        (case peak L (dtype (arr w1 y)) (data (arr w1 y)) of
           None \<Rightarrow> Inl (ValueError, w1)
         | Some a_signal \<Rightarrow>
             (case power10 L (snr / 20) of
                None \<Rightarrow> Inl (OverflowError, w1)
              | Some d \<Rightarrow>
                  let a_noise = divide_s L a_signal d in
                  (case randn (length (data (arr w1 y))) w1 of (white_noise, w2) \<Rightarrow>
                     (case peak L Float64 white_noise of
                        None \<Rightarrow> Inl (ValueError, w2)
                      | Some a_white \<Rightarrow>
                          Inr (alloc (astype L (dtype (arr w2 y))
                                 (add_scaled L (data (arr w2 y)) white_noise a_white a_noise))
                                w2))))))"

definition PinkNoiseSNR_apply ::
  "('s::one) env \<Rightarrow> real \<Rightarrow> real \<Rightarrow> ref \<Rightarrow> 's world \<Rightarrow> ('s, ref) result" where
  "PinkNoiseSNR_apply L min_snr max_snr y w =
     (case uniform min_snr max_snr w of (snr, w1) \<Rightarrow>
        (case peak L (dtype (arr w1 y)) (data (arr w1 y)) of
           None \<Rightarrow> Inl (ValueError, w1)
         | Some a_signal \<Rightarrow>
             (case power10 L (snr / 20) of
                None \<Rightarrow> Inl (OverflowError, w1)
              | Some d \<Rightarrow>
                  let a_noise = divide_s L a_signal d in
                  (case powerlaw_psd_gaussian L 1 (length (data (arr w1 y))) w1 of
                     (pink_noise, w2) \<Rightarrow>
                       (case peak L Float64 pink_noise of
                          None \<Rightarrow> Inl (ValueError, w2)
                        | Some a_pink \<Rightarrow>
                            Inr (alloc (astype L (dtype (arr w2 y))
                                   (add_scaled L (data (arr w2 y)) pink_noise a_pink a_noise))
                                  w2))))))"

definition PitchShift_apply ::
  "'s env \<Rightarrow> int \<Rightarrow> int \<Rightarrow> ref \<Rightarrow> 's world \<Rightarrow> ('s, ref) result" where
  "PitchShift_apply L max_steps sr y w =
     (case randint (- max_steps) max_steps w of
        Inl e \<Rightarrow> Inl e
      | Inr (n_steps, w1) \<Rightarrow> Inr (pitch_shift L y sr n_steps w1))"

text \<open>
  Lines 104 to 111 of \<^verbatim>\<open>TimeShift.apply\<close>, for a shift already drawn: the rotation
  into a new array, then the two slice assignments of the \<^verbatim>\<open>'zero'\<close> mode.
\<close>

definition TimeShift_shifted ::
  "string \<Rightarrow> int \<Rightarrow> ref \<Rightarrow> ('s::zero) world \<Rightarrow> ref \<times> 's world" where
  "TimeShift_shifted padding_mode shift y w =
     (case np_roll y shift w of (augmented, w1) \<Rightarrow>
        if padding_mode = ''zero'' then
          (if shift > 0 then (augmented, setitem_upto augmented shift 0 w1)
           else (augmented, setitem_from augmented shift 0 w1))
        else (augmented, w1))"

definition TimeShift_apply ::
  "int \<Rightarrow> int \<Rightarrow> string \<Rightarrow> ref \<Rightarrow> ('s::zero) world \<Rightarrow> ('s, ref) result" where
  "TimeShift_apply max_shift_second sr padding_mode y w =
     (case randint (- sr * max_shift_second) (sr * max_shift_second) w of
        Inl e \<Rightarrow> Inl e
      | Inr (shift, w1) \<Rightarrow> Inr (TimeShift_shifted padding_mode shift y w1))"

subsection \<open>Calling a transform\<close>

text \<open>
  \<open>call\<close> is \<^verbatim>\<open>__call__\<close> on any object of the module, \<open>Compose_loop\<close> the
  \<^verbatim>\<open>for\<close> loop of \<^verbatim>\<open>Compose.__call__\<close>, and \<open>call_item\<close> is
  \<^verbatim>\<open>self.transforms[trns_idx](y)\<close> of \<^verbatim>\<open>OneOf.__call__\<close>, where an index past
  the end raises IndexError.
\<close>

fun call :: "('s::{zero,one}) env \<Rightarrow> transform \<Rightarrow> ref \<Rightarrow> 's world \<Rightarrow> ('s, ref) result"
  and Compose_loop :: "'s env \<Rightarrow> transform list \<Rightarrow> ref \<Rightarrow> 's world \<Rightarrow> ('s, ref) result"
  and call_item :: "'s env \<Rightarrow> transform list \<Rightarrow> nat \<Rightarrow> ref \<Rightarrow> 's world \<Rightarrow> ('s, ref) result"
where
  "call L (AudioTransform always_apply p) y w =
     AudioTransform_call always_apply p AudioTransform_apply y w"
| "call L (GaussianNoiseSNR always_apply p min_snr max_snr) y w =
     AudioTransform_call always_apply p (GaussianNoiseSNR_apply L min_snr max_snr) y w"
| "call L (PinkNoiseSNR always_apply p min_snr max_snr) y w =
     AudioTransform_call always_apply p (PinkNoiseSNR_apply L min_snr max_snr) y w"
| "call L (PitchShift always_apply p max_steps sr) y w =
     AudioTransform_call always_apply p (PitchShift_apply L max_steps sr) y w"
| "call L (TimeShift always_apply p max_shift_second sr padding_mode) y w =
     AudioTransform_call always_apply p (TimeShift_apply max_shift_second sr padding_mode) y w"
| "call L (Compose transforms) y w = Compose_loop L transforms y w"
| "call L (OneOf transforms) y w =
     (case choice (length transforms) w of
        Inl e \<Rightarrow> Inl e
      | Inr (trns_idx, w') \<Rightarrow> call_item L transforms trns_idx y w')"
| "Compose_loop L [] y w = Inr (y, w)"
| "Compose_loop L (trns # rest) y w =
     (case call L trns y w of
        Inl e \<Rightarrow> Inl e
      | Inr (y', w') \<Rightarrow> Compose_loop L rest y' w')"
| "call_item L [] i y w = Inl (IndexError, w)"
| "call_item L (trns # rest) 0 y w = call L trns y w"
| "call_item L (trns # rest) (Suc i) y w = call_item L rest i y w"

subsection \<open>What a call leaves behind\<close>

text \<open>The array a call returned, if it returned, and the state it ended in.\<close>

definition returned :: "('s, ref) result \<Rightarrow> 's ndarray option" where
  "returned res = (case res of Inl (e, w') \<Rightarrow> None | Inr (r, w') \<Rightarrow> Some (arr w' r))"

definition after :: "('s, 'a) result \<Rightarrow> 's world" where
  "after res = (case res of Inl (e, w') \<Rightarrow> w' | Inr (r, w') \<Rightarrow> w')"

text \<open>
  \<open>grows w w'\<close>: every array of \<open>w\<close> is in \<open>w'\<close> at its old address with its
  old contents; \<open>w'\<close> may hold further arrays.
\<close>

definition grows :: "'s world \<Rightarrow> 's world \<Rightarrow> bool" where
  "grows w w' = (take (length (heap w)) (heap w') = heap w)"

definition same_shape :: "'s ndarray \<Rightarrow> 's ndarray \<Rightarrow> bool" where
  "same_shape a b = (length (data a) = length (data b) \<and> dtype a = dtype b)"

text \<open>
  What every call keeps, whether it returns or raises: the store only grows, and a
  returned array has the length and the dtype of the argument.
\<close>

definition kept :: "ref \<Rightarrow> 's world \<Rightarrow> ('s, ref) result \<Rightarrow> bool" where
  "kept y w res =
     (case res of
        Inl (e, w') \<Rightarrow> grows w w'
      | Inr (r, w') \<Rightarrow> grows w w' \<and> same_shape (arr w' r) (arr w y))"

subsection \<open>Example inputs\<close>

text \<open>
  Real-valued samples: a store with one \<^verbatim>\<open>float32\<close> waveform at reference 0, a
  tape whose \<open>n\<close>-th cell holds the bits \<open>k + n\<close> and normal variates that are all
  1, library parameters that compute exactly, round nothing and shape nothing, and a
  pipeline that nests the two combinators.
\<close>

definition example_rng :: "nat \<Rightarrow> nat \<Rightarrow> real cell" where
  "example_rng k n = \<lparr>bits = k + n, gauss = (\<lambda>i. 1)\<rparr>"

definition example_world :: "real list \<Rightarrow> nat \<Rightarrow> real world" where
  "example_world ys k = \<lparr>heap = [\<lparr>dtype = Float32, data = ys\<rparr>], rng = example_rng k\<rparr>"

definition example_env :: "real env" where
  "example_env =
     \<lparr>power2 = (\<lambda>dt x. x * x), sqrt_s = (\<lambda>dt x. sqrt x), maximum = max,
      power10 = (\<lambda>x. Some (10 powr x)), divide_s = (/), times_s = (*), plus_s = (+),
      round_to = (\<lambda>dt x. x), powerlaw_shape = (\<lambda>e n g i. g i),
      pitch_kernel = (\<lambda>sr n ys i. ys ! i)\<rparr>"

definition example_pipeline :: transform where
  "example_pipeline =
     Compose [TimeShift True 0.5 2 1 ''zero'',
              OneOf [PitchShift True 0.5 5 32000, GaussianNoiseSNR False 0 5 20]]"

subsection \<open>An arithmetic with a range\<close>

text \<open>
  Samples that are finite, infinite or not a number, to run the noise transforms where
  the range of a format matters. A result beyond the largest value of the format is
  infinite and one below its smallest is zero; inside the range results are kept as
  they are, so rounding is not modelled, nor is the sign of zero. The bounds are those
  of the IEEE formats, half a unit in the last place beyond the largest finite value and
  half the smallest subnormal.
\<close>

datatype fl = Finite real | PosInf | NegInf | NaN

instantiation fl :: "{zero, one}"
begin

definition zero_fl :: fl where
  "zero_fl = Finite 0"

definition one_fl :: fl where
  "one_fl = Finite 1"

instance ..

end

definition overflow_at :: "dtype \<Rightarrow> real" where
  "overflow_at dt =
     (case dt of
        Float16 \<Rightarrow> 65520
      | Float32 \<Rightarrow> (2 - 1 / 2 ^ 24) * 2 ^ 127
      | Float64 \<Rightarrow> (2 - 1 / 2 ^ 53) * 2 ^ 1023)"

definition underflow_at :: "dtype \<Rightarrow> real" where
  "underflow_at dt =
     (case dt of
        Float16 \<Rightarrow> 1 / 2 ^ 25
      | Float32 \<Rightarrow> 1 / 2 ^ 150
      | Float64 \<Rightarrow> 1 / 2 ^ 1075)"

definition fit :: "dtype \<Rightarrow> real \<Rightarrow> fl" where
  "fit dt r =
     (if overflow_at dt \<le> r then PosInf
      else if r \<le> - overflow_at dt then NegInf
      else if \<bar>r\<bar> \<le> underflow_at dt then Finite 0
      else Finite r)"

definition fl_power2 :: "dtype \<Rightarrow> fl \<Rightarrow> fl" where
  "fl_power2 dt x =
     (case x of Finite a \<Rightarrow> fit dt (a * a) | PosInf \<Rightarrow> PosInf | NegInf \<Rightarrow> PosInf | NaN \<Rightarrow> NaN)"

definition fl_sqrt :: "dtype \<Rightarrow> fl \<Rightarrow> fl" where
  "fl_sqrt dt x =
     (case x of
        Finite a \<Rightarrow> (if a < 0 then NaN else fit dt (sqrt a))
      | PosInf \<Rightarrow> PosInf
      | NegInf \<Rightarrow> NaN
      | NaN \<Rightarrow> NaN)"

fun fl_maximum :: "fl \<Rightarrow> fl \<Rightarrow> fl" where
  "fl_maximum NaN b = NaN"
| "fl_maximum a NaN = NaN"
| "fl_maximum PosInf b = PosInf"
| "fl_maximum a PosInf = PosInf"
| "fl_maximum NegInf b = b"
| "fl_maximum a NegInf = a"
| "fl_maximum (Finite a) (Finite b) = Finite (max a b)"

definition fl_power10 :: "real \<Rightarrow> fl option" where
  "fl_power10 x =
     (if overflow_at Float64 \<le> 10 powr x then None else Some (fit Float64 (10 powr x)))"

fun fl_times :: "fl \<Rightarrow> fl \<Rightarrow> fl" where
  "fl_times NaN b = NaN"
| "fl_times a NaN = NaN"
| "fl_times (Finite a) (Finite b) = fit Float64 (a * b)"
| "fl_times (Finite a) PosInf = (if a = 0 then NaN else if 0 < a then PosInf else NegInf)"
| "fl_times (Finite a) NegInf = (if a = 0 then NaN else if 0 < a then NegInf else PosInf)"
| "fl_times PosInf (Finite b) = (if b = 0 then NaN else if 0 < b then PosInf else NegInf)"
| "fl_times NegInf (Finite b) = (if b = 0 then NaN else if 0 < b then NegInf else PosInf)"
| "fl_times PosInf PosInf = PosInf"
| "fl_times PosInf NegInf = NegInf"
| "fl_times NegInf PosInf = NegInf"
| "fl_times NegInf NegInf = PosInf"

fun fl_divide :: "fl \<Rightarrow> fl \<Rightarrow> fl" where
  "fl_divide NaN b = NaN"
| "fl_divide a NaN = NaN"
| "fl_divide (Finite a) (Finite b) =
     (if b = 0 then (if a = 0 then NaN else if 0 < a then PosInf else NegInf)
      else fit Float64 (a / b))"
| "fl_divide (Finite a) PosInf = Finite 0"
| "fl_divide (Finite a) NegInf = Finite 0"
| "fl_divide PosInf (Finite b) = (if 0 \<le> b then PosInf else NegInf)"
| "fl_divide NegInf (Finite b) = (if 0 \<le> b then NegInf else PosInf)"
| "fl_divide PosInf PosInf = NaN"
| "fl_divide PosInf NegInf = NaN"
| "fl_divide NegInf PosInf = NaN"
| "fl_divide NegInf NegInf = NaN"

fun fl_plus :: "fl \<Rightarrow> fl \<Rightarrow> fl" where
  "fl_plus NaN b = NaN"
| "fl_plus a NaN = NaN"
| "fl_plus (Finite a) (Finite b) = fit Float64 (a + b)"
| "fl_plus (Finite a) PosInf = PosInf"
| "fl_plus (Finite a) NegInf = NegInf"
| "fl_plus PosInf (Finite b) = PosInf"
| "fl_plus NegInf (Finite b) = NegInf"
| "fl_plus PosInf PosInf = PosInf"
| "fl_plus NegInf NegInf = NegInf"
| "fl_plus PosInf NegInf = NaN"
| "fl_plus NegInf PosInf = NaN"

definition fl_round :: "dtype \<Rightarrow> fl \<Rightarrow> fl" where
  "fl_round dt x = (case x of Finite a \<Rightarrow> fit dt a | PosInf \<Rightarrow> PosInf | NegInf \<Rightarrow> NegInf | NaN \<Rightarrow> NaN)"

definition float_env :: "fl env" where
  "float_env =
     \<lparr>power2 = fl_power2, sqrt_s = fl_sqrt, maximum = fl_maximum, power10 = fl_power10,
      divide_s = fl_divide, times_s = fl_times, plus_s = fl_plus, round_to = fl_round,
      powerlaw_shape = (\<lambda>e n g i. g i), pitch_kernel = (\<lambda>sr n ys i. ys ! i)\<rparr>"

definition float_rng :: "nat \<Rightarrow> nat \<Rightarrow> fl cell" where
  "float_rng k n = \<lparr>bits = k + n, gauss = (\<lambda>i. 1)\<rparr>"

definition float_world :: "dtype \<Rightarrow> fl list \<Rightarrow> nat \<Rightarrow> fl world" where
  "float_world dt ys k = \<lparr>heap = [\<lparr>dtype = dt, data = ys\<rparr>], rng = float_rng k\<rparr>"

section \<open>Properties\<close>

subsection \<open>Rotation\<close>

text \<open>
  \<open>roll\<close> puts at position \<open>j\<close> the element that was \<open>shift\<close> places before
  it, counted around the array; equivalently the element at \<open>i\<close> moves forward to
  \<open>(i + shift) mod n\<close>.
\<close>

lemma length_roll: "length (roll xs s) = length xs"
  by (auto simp: roll_def Let_def)

lemma roll_nth:
  assumes "j < length xs"
  shows "roll xs s ! j = xs ! nat ((int j - s) mod int (length xs))"
proof -
  define n where "n = length xs"
  define q where "q = nat (s mod int n)"
  have n: "0 < n" using assms by (auto simp: n_def)
  have jn: "j < n" using assms by (simp add: n_def)
  have q: "q < n" "int q = s mod int n" using n by (simp_all add: q_def nat_less_iff)
  have e: "(int j - s) mod int n = (int j - int q) mod int n"
    by (simp only: q(2) mod_diff_right_eq)
  have r: "roll xs s = drop (n - q) xs @ take (n - q) xs"
    using n by (auto simp: roll_def Let_def n_def q_def)
  show ?thesis
  proof (cases "j < q")
    case True
    have "(int j - int q) mod int n = (int j - int q + int n) mod int n"
      by (simp only: mod_add_self2)
    also have "\<dots> = int j - int q + int n"
      by (rule mod_pos_pos_trivial) (use True q(1) in linarith)+
    finally have "nat ((int j - s) mod int n) = n - q + j"
      using True q(1) by (simp add: e)
    moreover have "roll xs s ! j = xs ! (n - q + j)"
      using True q(1) by (simp add: r nth_append n_def)
    ultimately show ?thesis by (simp only: n_def)
  next
    case False
    have "(int j - int q) mod int n = int j - int q"
      by (rule mod_pos_pos_trivial) (use False jn in linarith)+
    then have "nat ((int j - s) mod int n) = j - q"
      using False by (simp add: e)
    moreover have "roll xs s ! j = xs ! (j - q)"
      using False q(1) jn by (simp add: r nth_append n_def) 
    ultimately show ?thesis by (simp only: n_def)
  qed
qed

lemma roll_forward:
  assumes "i < length xs"
  shows "roll xs s ! nat ((int i + s) mod int (length xs)) = xs ! i"
proof -
  define n where "n = length xs"
  have n: "0 < n" using assms by (auto simp: n_def)
  define j where "j = nat ((int i + s) mod int n)"
  have j: "j < n" "int j = (int i + s) mod int n"
    using n by (simp_all add: j_def nat_less_iff)
  have "(int j - s) mod int n = (int i + s - s) mod int n"
    unfolding j(2) by (simp only: mod_diff_left_eq)
  also have "\<dots> = int i" using assms n_def by simp
  finally have "nat ((int j - s) mod int n) = i" by simp
  then show ?thesis using roll_nth [of j xs s] j(1) by (simp add: n_def j_def)
qed

lemma roll_0: "roll xs 0 = xs"
  by (simp add: roll_def)


subsection \<open>Slice assignment\<close>

lemma length_assign_upto: "length (assign_upto xs k v) = length xs"
  by (simp add: assign_upto_def Let_def slice_bound_def)

lemma length_assign_from: "length (assign_from xs k v) = length xs"
  by (simp add: assign_from_def Let_def slice_bound_def)

lemma assign_upto_pos:
  "0 < s \<Longrightarrow> assign_upto xs s v =
     replicate (min (nat s) (length xs)) v @ drop (min (nat s) (length xs)) xs"
  by (simp add: assign_upto_def slice_bound_def Let_def)

lemma assign_from_neg:
  "s < 0 \<Longrightarrow> assign_from xs s v =
     take (length xs - min (nat (- s)) (length xs)) xs @ replicate (min (nat (- s)) (length xs)) v"
proof -
  assume s: "s < 0"
  have "nat (max (int (length xs) + s) 0) = length xs - min (nat (- s)) (length xs)"
    using s by linarith
  moreover have "length xs - (length xs - min (nat (- s)) (length xs)) = min (nat (- s)) (length xs)"
    by linarith
  ultimately show ?thesis using s by (simp add: assign_from_def slice_bound_def Let_def)
qed

lemma assign_from_0: "assign_from xs 0 v = replicate (length xs) v"
  by (simp add: assign_from_def slice_bound_def)


subsection \<open>The store\<close>

lemma grows_iff: "grows w w' \<longleftrightarrow> (\<exists>hs. heap w' = heap w @ hs)"
proof
  assume "grows w w'"
  then have "heap w' = heap w @ drop (length (heap w)) (heap w')"
    unfolding grows_def by (metis append_take_drop_id)
  then show "\<exists>hs. heap w' = heap w @ hs" ..
next
  assume "\<exists>hs. heap w' = heap w @ hs"
  then show "grows w w'" by (auto simp: grows_def)
qed

lemma grows_trans: "grows w w1 \<Longrightarrow> grows w1 w2 \<Longrightarrow> grows w w2"
  by (auto simp: grows_iff)

lemma grows_arr: "grows w w' \<Longrightarrow> a < length (heap w) \<Longrightarrow> arr w' a = arr w a"
  by (auto simp: grows_iff arr_def nth_append)


subsection \<open>The random source\<close>

text \<open>No draw touches the store, and every draw lies in the range its function promises.\<close>

lemma unit_of_range: "0 \<le> unit_of c" "unit_of c < 1"
proof -
  have "bits c mod 2 ^ 53 < (2::nat) ^ 53" by simp
  then have "real (bits c mod 2 ^ 53) < 2 ^ 53"
    by (metis of_nat_less_iff of_nat_numeral of_nat_power)
  then show "unit_of c < 1" by (simp add: unit_of_def)
  show "0 \<le> unit_of c" by (simp add: unit_of_def)
qed

lemma rand_eq: "rand w = (unit_of (rng w 0), w\<lparr>rng := (\<lambda>n. rng w (Suc n))\<rparr>)"
  by (simp add: rand_def draw_def)

lemma heap_rand: "rand w = (r, w') \<Longrightarrow> heap w' = heap w"
  by (auto simp: rand_def draw_def)

lemma heap_uniform: "uniform lo hi w = (r, w') \<Longrightarrow> heap w' = heap w"
  by (auto simp: uniform_def draw_def)

lemma heap_randn: "randn n w = (xs, w') \<Longrightarrow> heap w' = heap w"
  by (auto simp: randn_def draw_def)

lemma length_randn: "randn n w = (xs, w') \<Longrightarrow> length xs = n"
  by (auto simp: randn_def draw_def)

lemma heap_powerlaw: "powerlaw_psd_gaussian L ex n w = (xs, w') \<Longrightarrow> heap w' = heap w"
  by (auto simp: powerlaw_psd_gaussian_def draw_def)

lemma length_powerlaw: "powerlaw_psd_gaussian L ex n w = (xs, w') \<Longrightarrow> length xs = n"
  by (auto simp: powerlaw_psd_gaussian_def draw_def)

lemma randint_of_range:
  assumes "lo < hi"
  shows "lo \<le> randint_of lo hi k" and "randint_of lo hi k < hi"
proof -
  have "k mod nat (hi - lo) < nat (hi - lo)"
    using assms by (intro mod_less_divisor) simp
  then have "int (k mod nat (hi - lo)) < hi - lo"
    using assms by linarith
  then show "randint_of lo hi k < hi" by (simp add: randint_of_def)
  show "lo \<le> randint_of lo hi k" by (simp add: randint_of_def)
qed

lemma randint_of_bij:
  assumes "lo < hi"
  shows "bij_betw (randint_of lo hi) {0..<nat (hi - lo)} {lo..<hi}"
proof (rule bij_betw_byWitness [where f' = "\<lambda>v. nat (v - lo)"])
  show "\<forall>k\<in>{0..<nat (hi - lo)}. nat (randint_of lo hi k - lo) = k"
    by (simp add: randint_of_def)
  show "\<forall>v\<in>{lo..<hi}. randint_of lo hi (nat (v - lo)) = v"
    using assms by (auto simp: randint_of_def)
  show "randint_of lo hi ` {0..<nat (hi - lo)} \<subseteq> {lo..<hi}"
    using assms by (auto simp: randint_of_range)
  show "(\<lambda>v. nat (v - lo)) ` {lo..<hi} \<subseteq> {0..<nat (hi - lo)}"
    using assms by auto
qed

lemma randint_eq:
  "lo < hi \<Longrightarrow> randint lo hi w = Inr (randint_of lo hi (bits (rng w 0)), snd (draw w))"
  by (simp add: randint_def draw_def)

lemma randint_Inr: "randint lo hi w = Inr (k, w') \<Longrightarrow> heap w' = heap w \<and> lo \<le> k \<and> k < hi"
  using randint_of_range [of lo hi "bits (rng w 0)"]
  by (auto simp: randint_def draw_def split: if_splits)

lemma randint_Inl: "randint lo hi w = Inl (e, w') \<Longrightarrow> w' = w \<and> e = ValueError \<and> hi \<le> lo"
  by (auto simp: randint_def draw_def split: if_splits)

lemma choice_Inr: "choice n w = Inr (k, w') \<Longrightarrow> heap w' = heap w \<and> k < n"
  by (auto simp: choice_def draw_def split: if_splits)

lemma choice_Inl: "choice n w = Inl (e, w') \<Longrightarrow> w' = w \<and> e = ValueError \<and> n = 0"
  by (auto simp: choice_def draw_def split: if_splits)


subsection \<open>Every call keeps the store and the shape\<close>

text \<open>
  The invariant \<open>kept\<close> holds of each \<^verbatim>\<open>apply\<close>, passes through the gate, and
  by induction over the three mutually recursive functions holds of every call.
\<close>

lemma kept_alloc:
  "same_shape a (arr w y) \<Longrightarrow> kept y w (Inr (alloc a w))"
  by (auto simp: kept_def alloc_def grows_def arr_def)

lemma kept_heap_eq: "heap w1 = heap w \<Longrightarrow> kept y w1 res \<Longrightarrow> kept y w res"
  by (auto simp: kept_def grows_def arr_def split: sum.splits)

lemma kept_skip: "heap w' = heap w \<Longrightarrow> kept y w (Inr (y, w'))"
  by (simp add: kept_def grows_def arr_def same_shape_def)

lemma kept_raise: "heap w' = heap w \<Longrightarrow> kept y w (Inl (e, w'))"
  by (simp add: kept_def grows_def)

lemma kept_then:
  assumes "kept y w (Inr (y1, w1))" and "kept y1 w1 res"
  shows "kept y w res"
  using assms by (auto simp: kept_def same_shape_def split: sum.splits intro: grows_trans)

lemma TimeShift_shifted_new:
  "TimeShift_shifted mode s y w = (r, w') \<Longrightarrow>
     r = length (heap w) \<and> rng w' = rng w \<and>
     heap w' = heap w @ [(arr w y)\<lparr>data :=
        (if mode = ''zero'' then
           (if s > 0 then assign_upto (roll (data (arr w y)) s) s 0
            else assign_from (roll (data (arr w y)) s) s 0)
         else roll (data (arr w y)) s)\<rparr>]"
  by (auto simp: TimeShift_shifted_def np_roll_def alloc_def setitem_upto_def setitem_from_def
      store_def arr_def split: if_splits)

lemma kept_TimeShift_shifted: "kept y w (Inr (TimeShift_shifted mode s y w))"
proof -
  obtain r w' where e: "TimeShift_shifted mode s y w = (r, w')" by (cases "TimeShift_shifted mode s y w")
  from TimeShift_shifted_new [OF e] show ?thesis
    by (auto simp: e kept_def grows_def arr_def same_shape_def length_roll
        length_assign_upto length_assign_from)
qed

lemma kept_TimeShift_apply: "kept y w (TimeShift_apply mss sr mode y w)"
proof (cases "randint (- sr * mss) (sr * mss) w")
  case (Inl a)
  obtain e w1 where a: "a = (e, w1)" by (cases a)
  have "w1 = w" using randint_Inl [OF Inl [unfolded a]] by simp
  then show ?thesis
    unfolding TimeShift_apply_def Inl a by (simp add: kept_raise)
next
  case (Inr b)
  obtain s w1 where b: "b = (s, w1)" by (cases b)
  have "heap w1 = heap w" using randint_Inr [OF Inr [unfolded b]] by simp
  then have "kept y w (Inr (TimeShift_shifted mode s y w1))"
    using kept_TimeShift_shifted by (rule kept_heap_eq)
  then show ?thesis
    unfolding TimeShift_apply_def Inr b by simp
qed

lemma kept_pitch_shift: "kept y w (Inr (pitch_shift L y sr n w))"
  unfolding pitch_shift_def by (rule kept_alloc) (simp add: same_shape_def)

lemma kept_PitchShift_apply: "kept y w (PitchShift_apply L max_steps sr y w)"
proof (cases "randint (- max_steps) max_steps w")
  case (Inl a)
  obtain e w1 where a: "a = (e, w1)" by (cases a)
  have "w1 = w" using randint_Inl [OF Inl [unfolded a]] by simp
  then show ?thesis
    unfolding PitchShift_apply_def Inl a by (simp add: kept_raise)
next
  case (Inr b)
  obtain s w1 where b: "b = (s, w1)" by (cases b)
  have "heap w1 = heap w" using randint_Inr [OF Inr [unfolded b]] by simp
  then have "kept y w (Inr (pitch_shift L y sr s w1))"
    using kept_pitch_shift by (rule kept_heap_eq)
  then show ?thesis
    unfolding PitchShift_apply_def Inr b by simp
qed

lemma length_add_scaled:
  "length noise = length ys \<Longrightarrow> length (add_scaled L ys noise a a_noise) = length ys"
  by (simp add: add_scaled_def)

lemma kept_mix:
  assumes "length noise = length (data (arr w y))"
  shows "kept y w
           (Inr (alloc (astype L (dtype (arr w y)) (add_scaled L (data (arr w y)) noise a a_noise)) w))"
  by (rule kept_alloc) (simp add: same_shape_def astype_def length_add_scaled assms)

lemma kept_GaussianNoiseSNR_apply: "kept y w (GaussianNoiseSNR_apply L lo hi y w)"
proof -
  obtain snr w1 where u: "uniform lo hi w = (snr, w1)" by (cases "uniform lo hi w")
  have h1: "heap w1 = heap w" using u by (rule heap_uniform)
  obtain noise w2 where n: "randn (length (data (arr w1 y))) w1 = (noise, w2)"
    by (cases "randn (length (data (arr w1 y))) w1")
  have h2: "heap w2 = heap w" using heap_randn [OF n] h1 by simp
  have a: "arr w2 y = arr w y" "arr w1 y = arr w y" using h1 h2 by (simp_all add: arr_def)
  have l: "length noise = length (data (arr w2 y))" using length_randn [OF n] a by simp
  show ?thesis
    using kept_mix [OF l, THEN kept_heap_eq [OF h2]] h1 h2
    by (auto simp: GaussianNoiseSNR_apply_def u n Let_def split: option.splits intro: kept_raise)
qed

lemma kept_PinkNoiseSNR_apply: "kept y w (PinkNoiseSNR_apply L lo hi y w)"
proof -
  obtain snr w1 where u: "uniform lo hi w = (snr, w1)" by (cases "uniform lo hi w")
  have h1: "heap w1 = heap w" using u by (rule heap_uniform)
  obtain noise w2 where n: "powerlaw_psd_gaussian L 1 (length (data (arr w1 y))) w1 = (noise, w2)"
    by (cases "powerlaw_psd_gaussian L 1 (length (data (arr w1 y))) w1")
  have h2: "heap w2 = heap w" using heap_powerlaw [OF n] h1 by simp
  have a: "arr w2 y = arr w y" "arr w1 y = arr w y" using h1 h2 by (simp_all add: arr_def)
  have l: "length noise = length (data (arr w2 y))" using length_powerlaw [OF n] a by simp
  show ?thesis
    using kept_mix [OF l, THEN kept_heap_eq [OF h2]] h1 h2
    by (auto simp: PinkNoiseSNR_apply_def u n Let_def split: option.splits intro: kept_raise)
qed

lemma kept_gate:
  assumes "\<And>w1. kept y w1 (apply y w1)"
  shows "kept y w (AudioTransform_call always_apply p apply y w)"
proof -
  obtain r w' where r: "rand w = (r, w')" by (cases "rand w")
  have h: "heap w' = heap w" using r by (rule heap_rand)
  show ?thesis
    using assms [of w] assms [of w', THEN kept_heap_eq [OF h]] kept_skip [OF h]
    by (simp add: AudioTransform_call_def r)
qed

lemma kept_call:
  "kept y w (call L t y w)"
  "kept y w (Compose_loop L ts y w)"
  "kept y w (call_item L ts i y w)"
proof (induction L t y w and L ts y w and L ts i y w rule: call_Compose_loop_call_item.induct)
  case (1 L always_apply p y w)
  show ?case by (simp add: kept_gate AudioTransform_apply_def kept_raise)
next
  case (2 L always_apply p min_snr max_snr y w)
  show ?case by (simp add: kept_gate kept_GaussianNoiseSNR_apply)
next
  case (3 L always_apply p min_snr max_snr y w)
  show ?case by (simp add: kept_gate kept_PinkNoiseSNR_apply)
next
  case (4 L always_apply p max_steps sr y w)
  show ?case by (simp add: kept_gate kept_PitchShift_apply)
next
  case (5 L always_apply p max_shift_second sr padding_mode y w)
  show ?case by (simp add: kept_gate kept_TimeShift_apply)
next
  case (6 L transforms y w)
  then show ?case by simp
next
  case (7 L transforms y w)
  show ?case
  proof (cases "choice (length transforms) w")
    case (Inl a)
    obtain e w1 where a: "a = (e, w1)" by (cases a)
    have "w1 = w" using choice_Inl [OF Inl [unfolded a]] by simp
    then show ?thesis by (simp add: Inl a kept_raise)
  next
    case (Inr b)
    obtain i w' where b: "b = (i, w')" by (cases b)
    have h: "heap w' = heap w" using choice_Inr [OF Inr [unfolded b]] by simp
    have "kept y w (call_item L transforms i y w')"
      using h "7.IH" [OF Inr b [symmetric]] by (rule kept_heap_eq)
    then show ?thesis by (simp add: Inr b)
  qed
next
  case (8 L y w)
  show ?case by (simp add: kept_skip)
next
  case (9 L trns rest y w)
  show ?case
  proof (cases "call L trns y w")
    case (Inl a)
    with "9.IH"(1) show ?thesis by simp
  next
    case (Inr b)
    obtain y1 w1 where b: "b = (y1, w1)" by (cases b)
    show ?thesis
      using "9.IH"(1) "9.IH"(2) [OF Inr b [symmetric]]
      by (simp add: Inr b) (rule kept_then)
  qed
next
  case (10 L i y w)
  show ?case by (simp add: kept_raise)
next
  case (11 L trns rest y w)
  then show ?case by simp
next
  case (12 L trns rest i y w)
  then show ?case by simp
qed


subsection \<open>The peak\<close>

text \<open>
  \<^verbatim>\<open>np.sqrt(y ** 2).max()\<close> goes through the squares. When the square of the first
  sample is a value that its root and the maximum with the other samples leave as it is,
  as infinity is, that value is the peak.
\<close>

lemma fold_maximum_absorbs:
  assumes "\<forall>x\<in>set xs. maximum L infty x = infty"
  shows "fold (\<lambda>v m. maximum L m v) xs infty = infty"
  using assms by (induction xs) simp_all

lemma peak_first_overflows:
  assumes "power2 L dt v = infty" and "sqrt_s L dt infty = infty"
    and "\<forall>x\<in>set rest. maximum L infty (sqrt_s L dt (power2 L dt x)) = infty"
  shows "peak L dt (v # rest) = Some infty"
proof -
  have "\<forall>x\<in>set (sqrt_sq L dt rest). maximum L infty x = infty"
    using assms(3) by (simp add: sqrt_sq_def)
  then have "fold (\<lambda>v m. maximum L m v) (sqrt_sq L dt rest) infty = infty"
    by (rule fold_maximum_absorbs)
  then show ?thesis
    by (simp add: peak_def np_max_def sqrt_sq_def assms(1,2))
qed


subsection \<open>The combinators\<close>

lemma Compose_loop_append:
  "Compose_loop L (ts @ us) y w =
     (case Compose_loop L ts y w of
        Inl e \<Rightarrow> Inl e
      | Inr (y', w') \<Rightarrow> Compose_loop L us y' w')"
proof (induction ts arbitrary: y w)
  case Nil
  show ?case by simp
next
  case (Cons t ts)
  show ?case by (simp add: Cons.IH split: sum.splits)
qed

lemma call_item_nth:
  "i < length ts \<Longrightarrow> call_item L ts i y w = call L (ts ! i) y w"
proof (induction ts arbitrary: i)
  case Nil
  then show ?case by simp
next
  case (Cons t ts)
  then show ?case by (cases i) simp_all
qed


subsection \<open>The transforms for given draws\<close>

text \<open>
  What \<^verbatim>\<open>TimeShift.apply\<close> returns for a drawn shift \<open>s\<close>, in each padding mode
  and for each sign of \<open>s\<close>, and what the two noise transforms return for a drawn
  signal-to-noise ratio and a drawn noise, in terms of the library's arithmetic.
\<close>

lemma returned_TimeShift_shifted:
  "returned (Inr (TimeShift_shifted mode s y w)) =
     Some ((arr w y)\<lparr>data :=
        (if mode = ''zero'' then
           (if s > 0 then assign_upto (roll (data (arr w y)) s) s 0
            else assign_from (roll (data (arr w y)) s) s 0)
         else roll (data (arr w y)) s)\<rparr>)"
proof -
  obtain r w' where e: "TimeShift_shifted mode s y w = (r, w')"
    by (cases "TimeShift_shifted mode s y w")
  from TimeShift_shifted_new [OF e] show ?thesis
    by (simp add: e returned_def arr_def)
qed

lemma TimeShift_replace:
  "returned (Inr (TimeShift_shifted ''replace'' s y w)) =
     Some ((arr w y)\<lparr>data := roll (data (arr w y)) s\<rparr>)"
  by (simp add: returned_TimeShift_shifted)

lemma TimeShift_zero_pos:
  "0 < s \<Longrightarrow> returned (Inr (TimeShift_shifted ''zero'' s y w)) =
     Some ((arr w y)\<lparr>data :=
       replicate (min (nat s) (length (data (arr w y)))) 0 @
       drop (min (nat s) (length (data (arr w y)))) (roll (data (arr w y)) s)\<rparr>)"
  by (simp add: returned_TimeShift_shifted assign_upto_pos length_roll)

lemma TimeShift_zero_neg:
  "s < 0 \<Longrightarrow> returned (Inr (TimeShift_shifted ''zero'' s y w)) =
     Some ((arr w y)\<lparr>data :=
       take (length (data (arr w y)) - min (nat (- s)) (length (data (arr w y))))
         (roll (data (arr w y)) s) @
       replicate (min (nat (- s)) (length (data (arr w y)))) 0\<rparr>)"
  by (simp add: returned_TimeShift_shifted assign_from_neg length_roll)

lemma TimeShift_zero_0:
  "returned (Inr (TimeShift_shifted ''zero'' 0 y w)) =
     Some ((arr w y)\<lparr>data := replicate (length (data (arr w y))) 0\<rparr>)"
  by (simp add: returned_TimeShift_shifted assign_from_0 roll_0)

lemma GaussianNoiseSNR_apply_eq:
  assumes "peak L (dtype (arr w y)) (data (arr w y)) = Some a_signal"
    and "uniform min_snr max_snr w = (snr, w1)"
    and "power10 L (snr / 20) = Some d"
    and "randn (length (data (arr w y))) w1 = (white_noise, w2)"
    and "peak L Float64 white_noise = Some a_white"
  shows "GaussianNoiseSNR_apply L min_snr max_snr y w =
           Inr (alloc (astype L (dtype (arr w y))
                  (add_scaled L (data (arr w y)) white_noise a_white (divide_s L a_signal d))) w2)"
proof -
  have h1: "heap w1 = heap w" using assms(2) by (rule heap_uniform)
  have h2: "heap w2 = heap w" using heap_randn [OF assms(4)] h1 by simp
  have a: "arr w1 y = arr w y" "arr w2 y = arr w y" using h1 h2 by (simp_all add: arr_def)
  show ?thesis
    by (simp add: GaussianNoiseSNR_apply_def assms a)
qed

lemma PinkNoiseSNR_apply_eq:
  assumes "peak L (dtype (arr w y)) (data (arr w y)) = Some a_signal"
    and "uniform min_snr max_snr w = (snr, w1)"
    and "power10 L (snr / 20) = Some d"
    and "powerlaw_psd_gaussian L 1 (length (data (arr w y))) w1 = (pink_noise, w2)"
    and "peak L Float64 pink_noise = Some a_pink"
  shows "PinkNoiseSNR_apply L min_snr max_snr y w =
           Inr (alloc (astype L (dtype (arr w y))
                  (add_scaled L (data (arr w y)) pink_noise a_pink (divide_s L a_signal d))) w2)"
proof -
  have h1: "heap w1 = heap w" using assms(2) by (rule heap_uniform)
  have h2: "heap w2 = heap w" using heap_powerlaw [OF assms(4)] h1 by simp
  have a: "arr w1 y = arr w y" "arr w2 y = arr w y" using h1 h2 by (simp_all add: arr_def)
  show ?thesis
    by (simp add: PinkNoiseSNR_apply_def assms a)
qed


subsection \<open>Runs on the example inputs\<close>

lemma draw_example:
  "draw \<lparr>heap = h, rng = example_rng k\<rparr> =
     (\<lparr>bits = k, gauss = (\<lambda>i. 1)\<rparr>, \<lparr>heap = h, rng = example_rng (Suc k)\<rparr>)"
  by (simp add: draw_def example_rng_def fun_eq_iff)

lemma randint_example:
  "lo < hi \<Longrightarrow> randint lo hi \<lparr>heap = h, rng = example_rng k\<rparr> =
     Inr (lo + int (k mod nat (hi - lo)), \<lparr>heap = h, rng = example_rng (Suc k)\<rparr>)"
  by (simp add: randint_def randint_of_def draw_example)

lemma choice_example:
  "0 < n \<Longrightarrow> choice n \<lparr>heap = h, rng = example_rng k\<rparr> =
     Inr (k mod n, \<lparr>heap = h, rng = example_rng (Suc k)\<rparr>)"
  by (simp add: choice_def draw_example)

lemma example_TimeShift_run:
  "call example_env (TimeShift True 0.5 2 1 ''zero'') 0 (example_world [1, 2, 3] 3) =
     Inr (1, \<lparr>heap = [\<lparr>dtype = Float32, data = [1, 2, 3]\<rparr>,
                       \<lparr>dtype = Float32, data = [0, 1, 2]\<rparr>],
              rng = example_rng 4\<rparr>)"
  by (simp add: AudioTransform_call_def TimeShift_apply_def TimeShift_shifted_def
      randint_example np_roll_def alloc_def arr_def store_def roll_def setitem_upto_def
      assign_upto_def slice_bound_def example_world_def)

lemma example_PitchShift_run:
  "call example_env (PitchShift True 0.5 5 32000) 1
       \<lparr>heap = [a, \<lparr>dtype = Float32, data = [0, 1, 2]\<rparr>], rng = example_rng 5\<rparr> =
     Inr (2, \<lparr>heap = [a, \<lparr>dtype = Float32, data = [0, 1, 2]\<rparr>,
                       \<lparr>dtype = Float32, data = [0, 1, 2]\<rparr>],
              rng = example_rng 6\<rparr>)"
  by (simp add: AudioTransform_call_def PitchShift_apply_def pitch_shift_def
      randint_example alloc_def arr_def example_env_def)

lemma example_OneOf_run:
  "call example_env (OneOf [PitchShift True 0.5 5 32000, GaussianNoiseSNR False 0 5 20]) 1
       \<lparr>heap = [a, \<lparr>dtype = Float32, data = [0, 1, 2]\<rparr>], rng = example_rng 4\<rparr> =
     Inr (2, \<lparr>heap = [a, \<lparr>dtype = Float32, data = [0, 1, 2]\<rparr>,
                       \<lparr>dtype = Float32, data = [0, 1, 2]\<rparr>],
              rng = example_rng 6\<rparr>)"
proof -
  have "(4::nat) mod length [PitchShift True 0.5 5 32000, GaussianNoiseSNR False 0 5 20] = 0"
    by (simp add: numeral_2_eq_2 [symmetric])
  then show ?thesis
    using example_PitchShift_run [of a]
    by (simp add: choice_example del: call.simps(4))
qed

lemma example_pipeline_run:
  "call example_env example_pipeline 0 (example_world [1, 2, 3] 3) =
     Inr (2, \<lparr>heap = [\<lparr>dtype = Float32, data = [1, 2, 3]\<rparr>,
                       \<lparr>dtype = Float32, data = [0, 1, 2]\<rparr>,
                       \<lparr>dtype = Float32, data = [0, 1, 2]\<rparr>],
              rng = example_rng 6\<rparr>)"
  using example_TimeShift_run example_OneOf_run [of "\<lparr>dtype = Float32, data = [1, 2, 3]\<rparr>"]
  by (simp add: example_pipeline_def del: call.simps(4,5,7))

lemma overflow_at_bounds:
  "overflow_at Float32 \<le> 10 ^ 40" "10 < overflow_at Float64" "1 < overflow_at Float64"
  "1 < overflow_at Float32"
  by (simp_all add: overflow_at_def)

lemma underflow_at_bounds: "underflow_at Float64 < 1" "underflow_at Float32 < 1"
  by (simp_all add: underflow_at_def)

lemma fit_0: "fit dt 0 = Finite 0"
  by (cases dt) (simp_all add: fit_def overflow_at_def underflow_at_def)

lemma fit_1: "fit Float64 1 = Finite 1"
  using overflow_at_bounds(3) underflow_at_bounds(1) by (simp add: fit_def)

lemma draw_float:
  "draw \<lparr>heap = h, rng = float_rng k\<rparr> =
     (\<lparr>bits = k, gauss = (\<lambda>i. 1)\<rparr>, \<lparr>heap = h, rng = float_rng (Suc k)\<rparr>)"
  by (simp add: draw_def float_rng_def fun_eq_iff)

lemma power10_quarter: "fl_power10 (5 / 20) = Some (Finite (10 powr (1 / 4)))"
proof -
  have "(10::real) powr (5 / 20) \<le> 10 powr 1" by (intro powr_mono) simp_all
  then have u: "(10::real) powr (5 / 20) \<le> 10" by simp
  have "(10::real) powr 0 \<le> 10 powr (5 / 20)" by (intro powr_mono) simp_all
  then have l: "1 \<le> (10::real) powr (5 / 20)" by simp
  show ?thesis
    using u l overflow_at_bounds(2) underflow_at_bounds(1)
    by (simp add: fl_power10_def fit_def)
qed

lemma peak_ones: "peak float_env Float64 [1, 1, 1, 1] = Some 1"
  by (simp add: peak_def np_max_def sqrt_sq_def float_env_def fl_power2_def fl_sqrt_def
      one_fl_def fit_1)


section \<open>The claims\<close>

text \<open>
  Claim C1. \<^verbatim>\<open>TimeShift.apply\<close> rotates the waveform by the drawn shift \<open>s\<close>
  (\<open>roll_forward\<close>: the sample at \<open>i\<close> moves to \<open>(i + s) mod n\<close>), and the
  \<^verbatim>\<open>'replace'\<close> mode returns this rotation (\<open>TimeShift_replace\<close>). In the
  \<^verbatim>\<open>'zero'\<close> mode a shift \<open>s > 0\<close> zeroes the first \<open>s\<close> samples
  (\<open>TimeShift_zero_pos\<close>) and a shift \<open>s < 0\<close> the last \<open>|s|\<close>
  (\<open>TimeShift_zero_neg\<close>). The claim adds that for \<open>s = 0\<close> the output equals the
  input. It does not: the \<^verbatim>\<open>else\<close> branch runs \<^verbatim>\<open>augmented[0:] = 0\<close>, which
  zeroes every sample (\<open>TimeShift_zero_0\<close>). With \<^verbatim>\<open>sr = 1\<close> and
  \<^verbatim>\<open>max_shift_second = 2\<close> the shift is drawn from \<open>-2, -1, 0, 1\<close>; on a tape
  whose draw is 0, the waveform \<open>[1, 2, 3]\<close> comes back as \<open>[0, 0, 0]\<close>.
\<close>

theorem TimeShift_zero_mode_shift_0:
  "map_sum fst fst (randint (- 1 * 2) (1 * 2) (example_world [1, 2, 3] 2)) = Inr 0 \<and>
   returned (TimeShift_apply 2 1 ''zero'' 0 (example_world [1, 2, 3] 2)) =
     Some \<lparr>dtype = Float32, data = [0, 0, 0]\<rparr>"
proof -
  have "randint (- 2) 2 (example_world [1, 2, 3] 2) =
          Inr (0, \<lparr>heap = [\<lparr>dtype = Float32, data = [1, 2, 3]\<rparr>], rng = example_rng 3\<rparr>)"
    by (simp add: example_world_def randint_example)
  then show ?thesis
    by (simp add: TimeShift_apply_def returned_TimeShift_shifted assign_from_0 roll_0 arr_def)
qed


text \<open>
  Claim C2. For every transform and every composition of the module, and every
  waveform \<open>y\<close>: when the call returns, the array it returns has the length of \<open>y\<close>
  and the dtype of \<open>y\<close>.
\<close>

theorem call_keeps_length_and_dtype:
  assumes "call L t y w = Inr (r, w')"
  shows "length (data (arr w' r)) = length (data (arr w y)) \<and> dtype (arr w' r) = dtype (arr w y)"
  using kept_call(1) [of y w L t] by (simp add: assms kept_def same_shape_def)


text \<open>
  The example pipeline returns the array at reference 2, of length 3 and of dtype
  \<^verbatim>\<open>float32\<close>, as the waveform at reference 0 is.
\<close>

theorem call_keeps_length_and_dtype_witness:
  "\<exists>w'. call example_env example_pipeline 0 (example_world [1, 2, 3] 3) = Inr (2, w') \<and>
     length (data (arr w' 2)) = 3 \<and> dtype (arr w' 2) = Float32"
proof -
  obtain w' where c: "call example_env example_pipeline 0 (example_world [1, 2, 3] 3) = Inr (2, w')"
    using example_pipeline_run by simp
  have "arr (example_world [1, 2, 3] 3) 0 = \<lparr>dtype = Float32, data = [1, 2, 3]\<rparr>"
    by (simp add: arr_def example_world_def)
  with call_keeps_length_and_dtype [OF c] c show ?thesis by simp
qed


text \<open>
  Claim C3. With \<^verbatim>\<open>always_apply\<close> true the gate runs \<^verbatim>\<open>apply\<close> on the state
  it was called in, without a draw. Otherwise it draws one \<open>r\<close> with
  \<open>0 \<le> r < 1\<close>, which advances the tape by one cell and leaves the store alone, and
  runs \<^verbatim>\<open>apply\<close> exactly when \<open>r < p\<close>; when \<open>r \<ge> p\<close> it returns the
  reference it was given. So with \<open>p = 0\<close> it always returns its argument and with
  \<open>p = 1\<close> it always runs \<^verbatim>\<open>apply\<close>. The four transforms are called through
  this gate.
\<close>

theorem gate_dispatch:
  "AudioTransform_call True p apply y w = apply y w \<and>
   AudioTransform_call False p apply y w =
     (if fst (rand w) < p then apply y (snd (rand w)) else Inr (y, snd (rand w))) \<and>
   0 \<le> fst (rand w) \<and> fst (rand w) < 1 \<and>
   heap (snd (rand w)) = heap w \<and> rng (snd (rand w)) = (\<lambda>n. rng w (Suc n)) \<and>
   AudioTransform_call False 0 apply y w = Inr (y, snd (rand w)) \<and>
   AudioTransform_call False 1 apply y w = apply y (snd (rand w)) \<and>
   call L (GaussianNoiseSNR a q lo hi) y w =
     AudioTransform_call a q (GaussianNoiseSNR_apply L lo hi) y w \<and>
   call L (PinkNoiseSNR a q lo hi) y w =
     AudioTransform_call a q (PinkNoiseSNR_apply L lo hi) y w \<and>
   call L (PitchShift a q max_steps sr) y w =
     AudioTransform_call a q (PitchShift_apply L max_steps sr) y w \<and>
   call L (TimeShift a q max_shift_second sr padding_mode) y w =
     AudioTransform_call a q (TimeShift_apply max_shift_second sr padding_mode) y w"
proof -
  have r: "0 \<le> fst (rand w)" "fst (rand w) < 1"
    by (simp_all add: rand_eq unit_of_range)
  have "\<not> fst (rand w) < 0" using r(1) by linarith
  then show ?thesis
    using r by (simp add: AudioTransform_call_def split_beta) (simp add: rand_eq)
qed


text \<open>
  Claim C4, as stated: constructing a transform with \<open>p\<close> outside \<open>[0, 1]\<close> fails.
  It does not. No constructor looks at \<open>p\<close>: with \<open>p = 2\<close> and with \<open>p = -1\<close>
  construction succeeds.
\<close>

theorem construction_accepts_p_outside_unit_interval:
  "(2::real) \<notin> {0..1} \<and>
   TimeShift_init False 2 2 32000 ''replace'' = Inr (TimeShift False 2 2 32000 ''replace'') \<and>
   (- 1::real) \<notin> {0..1} \<and>
   GaussianNoiseSNR_init False (- 1) 5 20 = Inr (GaussianNoiseSNR False (- 1) 5 20)"
  by (simp add: TimeShift_init_def GaussianNoiseSNR_init_def)


text \<open>
  Claim C4, amended: for every \<open>p\<close>, inside \<open>[0, 1]\<close> or not, construction
  succeeds and stores \<open>p\<close> as given (for \<^verbatim>\<open>TimeShift\<close>, with one of the two
  padding modes it accepts).
\<close>

theorem construction_ignores_p:
  "AudioTransform_init a p = Inr (AudioTransform a p) \<and>
   GaussianNoiseSNR_init a p min_snr max_snr = Inr (GaussianNoiseSNR a p min_snr max_snr) \<and>
   PinkNoiseSNR_init a p min_snr max_snr = Inr (PinkNoiseSNR a p min_snr max_snr) \<and>
   PitchShift_init a p max_steps sr = Inr (PitchShift a p max_steps sr) \<and>
   TimeShift_init a p max_shift_second sr ''replace'' =
     Inr (TimeShift a p max_shift_second sr ''replace'') \<and>
   TimeShift_init a p max_shift_second sr ''zero'' =
     Inr (TimeShift a p max_shift_second sr ''zero'')"
  by (simp add: AudioTransform_init_def GaussianNoiseSNR_init_def PinkNoiseSNR_init_def
      PitchShift_init_def TimeShift_init_def)


text \<open>
  Claim C5. The two noise transforms draw \<open>snr\<close>, take the peak of \<open>y\<close>, divide it
  by \<^verbatim>\<open>10 ** (snr / 20)\<close>, draw a noise of the length of \<open>y\<close>, divide it by its
  peak, scale it and add it to \<open>y\<close>, as the claim says. But the peak is computed as
  \<^verbatim>\<open>np.sqrt(y ** 2).max()\<close>, with the square taken in the dtype of \<open>y\<close>, and
  that is not always the largest absolute value of \<open>y\<close>. Let the first sample of
  \<open>y\<close> have a square that overflows to \<open>infty\<close>, with the root of \<open>infty\<close> and
  its maximum with the other samples \<open>infty\<close> again, as the IEEE formats have it.
  Then the peak the code computes is \<open>infty\<close>, and the noise is scaled by
  \<open>infty / 10 ** (snr / 20)\<close>, not by the peak of \<open>y\<close> over that power.
\<close>

theorem peak_is_infinite_when_square_overflows:
  assumes "data (arr w y) = v # rest"
    and "power2 L (dtype (arr w y)) v = infty"
    and "sqrt_s L (dtype (arr w y)) infty = infty"
    and "\<forall>x\<in>set rest.
           maximum L infty (sqrt_s L (dtype (arr w y)) (power2 L (dtype (arr w y)) x)) = infty"
    and "uniform min_snr max_snr w = (snr, w1)"
    and "power10 L (snr / 20) = Some d"
    and "randn (length (data (arr w y))) w1 = (white_noise, w2)"
    and "peak L Float64 white_noise = Some a_white"
    and "powerlaw_psd_gaussian L 1 (length (data (arr w y))) w1 = (pink_noise, w3)"
    and "peak L Float64 pink_noise = Some a_pink"
  shows "peak L (dtype (arr w y)) (data (arr w y)) = Some infty \<and>
         GaussianNoiseSNR_apply L min_snr max_snr y w =
           Inr (alloc (astype L (dtype (arr w y))
                  (add_scaled L (data (arr w y)) white_noise a_white (divide_s L infty d))) w2) \<and>
         PinkNoiseSNR_apply L min_snr max_snr y w =
           Inr (alloc (astype L (dtype (arr w y))
                  (add_scaled L (data (arr w y)) pink_noise a_pink (divide_s L infty d))) w3)"
proof -
  have p: "peak L (dtype (arr w y)) (data (arr w y)) = Some infty"
    unfolding assms(1) using assms(2,3,4) by (rule peak_first_overflows)
  show ?thesis
    using p GaussianNoiseSNR_apply_eq [OF p assms(5,6,7,8)]
      PinkNoiseSNR_apply_eq [OF p assms(5,6,9,10)]
    by (intro conjI)
qed


text \<open>
  In \<^verbatim>\<open>float32\<close> the square of \<open>1e20\<close> is beyond the range. On the waveform
  \<open>[1e20, 0, 0, 0]\<close>, with \<open>snr = 5\<close> and a noise of four ones, the peak is
  infinite and every sample that comes back is infinite, where the claim has a noise of
  peak \<open>1e20 / 10 ** (5 / 20)\<close> added.
\<close>

theorem peak_is_infinite_when_square_overflows_witness:
  "peak float_env Float32 [Finite 100000000000000000000, 0, 0, 0] = Some PosInf \<and>
   returned (GaussianNoiseSNR_apply float_env 5 20 0
               (float_world Float32 [Finite 100000000000000000000, 0, 0, 0] 0)) =
     Some \<lparr>dtype = Float32, data = [PosInf, PosInf, PosInf, PosInf]\<rparr> \<and>
   returned (PinkNoiseSNR_apply float_env 5 20 0
               (float_world Float32 [Finite 100000000000000000000, 0, 0, 0] 0)) =
     Some \<lparr>dtype = Float32, data = [PosInf, PosInf, PosInf, PosInf]\<rparr>"
proof -
  let ?ys = "[Finite 100000000000000000000, 0, 0, 0]"
  let ?h = "[\<lparr>dtype = Float32, data = ?ys\<rparr>]"
  let ?w = "float_world Float32 ?ys 0"
  let ?w1 = "\<lparr>heap = ?h, rng = float_rng 1\<rparr>"
  let ?w2 = "\<lparr>heap = ?h, rng = float_rng 2\<rparr>"
  let ?d = "Finite (10 powr (1 / 4))"
  have a: "arr ?w 0 = \<lparr>dtype = Float32, data = ?ys\<rparr>"
    by (simp add: arr_def float_world_def)
  have 1: "data (arr ?w 0) = Finite 100000000000000000000 # [0, 0, 0]" by (simp add: a)
  have 2: "power2 float_env (dtype (arr ?w 0)) (Finite 100000000000000000000) = PosInf"
    by (simp add: a float_env_def fl_power2_def fit_def overflow_at_def)
  have 3: "sqrt_s float_env (dtype (arr ?w 0)) PosInf = PosInf"
    by (simp add: float_env_def fl_sqrt_def)
  have 4: "\<forall>x\<in>set [0, 0, 0].
             maximum float_env PosInf
               (sqrt_s float_env (dtype (arr ?w 0)) (power2 float_env (dtype (arr ?w 0)) x)) =
             PosInf"
    by (simp add: a float_env_def fl_power2_def fl_sqrt_def zero_fl_def fit_0)
  have 5: "uniform 5 20 ?w = (5, ?w1)"
    by (simp add: uniform_def unit_of_def draw_float float_world_def)
  have 6: "power10 float_env (5 / 20) = Some ?d"
    using power10_quarter by (simp add: float_env_def)
  have l: "length (data (arr ?w 0)) = 4" by (simp add: a)
  have r: "[0..<4] = [0, 1, 2, 3]" by (simp add: upt_rec)
  have 7: "randn (length (data (arr ?w 0))) ?w1 = ([1, 1, 1, 1], ?w2)"
    unfolding l by (simp add: randn_def draw_float r numeral_2_eq_2)
  have 8: "peak float_env Float64 [1, 1, 1, 1] = Some 1" by (rule peak_ones)
  have 9: "powerlaw_psd_gaussian float_env 1 (length (data (arr ?w 0))) ?w1 = ([1, 1, 1, 1], ?w2)"
    unfolding l by (simp add: powerlaw_psd_gaussian_def draw_float r numeral_2_eq_2 float_env_def)
  note t = peak_is_infinite_when_square_overflows [OF 1 2 3 4 5 6 7 8 9 8, unfolded a]
  have d: "0 \<le> (10::real) powr (1 / 4)" by simp
  have s: "add_scaled float_env ?ys [1, 1, 1, 1] 1 (divide_s float_env PosInf ?d) =
             [PosInf, PosInf, PosInf, PosInf]"
    using d by (simp add: add_scaled_def float_env_def one_fl_def zero_fl_def fit_1)
  have c: "astype float_env Float32 [PosInf, PosInf, PosInf, PosInf] =
             \<lparr>dtype = Float32, data = [PosInf, PosInf, PosInf, PosInf]\<rparr>"
    by (simp add: astype_def float_env_def fl_round_def)
  have p: "peak float_env Float32 ?ys = Some PosInf"
    using t by (elim conjE) simp
  have g: "returned (GaussianNoiseSNR_apply float_env 5 20 0 ?w) =
     Some \<lparr>dtype = Float32, data = [PosInf, PosInf, PosInf, PosInf]\<rparr>"
    using t by (elim conjE) (simp add: s c returned_def alloc_def arr_def)
  have k: "returned (PinkNoiseSNR_apply float_env 5 20 0 ?w) =
     Some \<lparr>dtype = Float32, data = [PosInf, PosInf, PosInf, PosInf]\<rparr>"
    using t by (elim conjE) (simp add: s c returned_def alloc_def arr_def)
  show ?thesis using p g k by (intro conjI)
qed


text \<open>
  Claim C6. \<^verbatim>\<open>Compose\<close> calls its children in list order, each on the array and
  in the state the one before it returned, and stops at the first that raises. On
  \<open>[A, B]\<close> that is \<open>B\<close> called on what \<open>A\<close> returned; on the empty list the
  argument comes back in the state unchanged; a list \<open>ts @ us\<close> is \<open>ts\<close> followed by
  \<open>us\<close>.
\<close>

theorem Compose_applies_in_order:
  "call L (Compose []) y w = Inr (y, w) \<and>
   call L (Compose (t # ts)) y w =
     (case call L t y w of
        Inl e \<Rightarrow> Inl e
      | Inr (y', w') \<Rightarrow> call L (Compose ts) y' w') \<and>
   call L (Compose [A, B]) y w =
     (case call L A y w of
        Inl e \<Rightarrow> Inl e
      | Inr (y', w') \<Rightarrow> call L B y' w') \<and>
   call L (Compose (ts @ us)) y w =
     (case call L (Compose ts) y w of
        Inl e \<Rightarrow> Inl e
      | Inr (y', w') \<Rightarrow> call L (Compose us) y' w')"
proof (intro conjI)
  show "call L (Compose []) y w = Inr (y, w)" by simp
  show "call L (Compose (t # ts)) y w =
     (case call L t y w of
        Inl e \<Rightarrow> Inl e
      | Inr (y', w') \<Rightarrow> call L (Compose ts) y' w')"
    by (auto split: sum.splits)
  show "call L (Compose [A, B]) y w =
     (case call L A y w of
        Inl e \<Rightarrow> Inl e
      | Inr (y', w') \<Rightarrow> call L B y' w')"
    by (auto split: sum.splits)
  show "call L (Compose (ts @ us)) y w =
     (case call L (Compose ts) y w of
        Inl e \<Rightarrow> Inl e
      | Inr (y', w') \<Rightarrow> call L (Compose us) y' w')"
    by (auto simp: Compose_loop_append split: sum.splits)
qed


text \<open>
  Claim C7. On a non-empty list \<^verbatim>\<open>OneOf\<close> draws one index below the length of the
  list, the raw draw reduced modulo the length, so that every index is drawn from exactly
  one residue. The draw leaves the store alone. The result is the call of the child at
  that index, through the child's own gate, in the state after the draw.
\<close>

theorem OneOf_delegates_to_drawn_child:
  assumes "transforms \<noteq> []"
  shows "call L (OneOf transforms) y w =
           call L (transforms ! (bits (rng w 0) mod length transforms)) y (snd (draw w)) \<and>
         bits (rng w 0) mod length transforms < length transforms \<and>
         choice (length transforms) w = Inr (bits (rng w 0) mod length transforms, snd (draw w)) \<and>
         heap (snd (draw w)) = heap w \<and>
         bij_betw (\<lambda>k. k mod length transforms) {0..<length transforms} {0..<length transforms}"
proof -
  have n: "0 < length transforms" using assms by simp
  then have i: "bits (rng w 0) mod length transforms < length transforms" by simp
  have c: "choice (length transforms) w =
             Inr (bits (rng w 0) mod length transforms, snd (draw w))"
    using n by (simp add: choice_def draw_def)
  have b: "bij_betw (\<lambda>k. k mod length transforms) {0..<length transforms} {0..<length transforms}"
    by (rule bij_betw_byWitness [where f' = "\<lambda>k. k"]) auto
  show ?thesis
    using i c b by (simp add: call_item_nth) (simp add: draw_def)
qed


text \<open>
  With two children, the draw 4 selects the first and the draw 5 the second.
\<close>

theorem OneOf_delegates_to_drawn_child_witness:
  "[PitchShift True 0.5 5 32000, GaussianNoiseSNR False 0 5 20] \<noteq> [] \<and>
   call example_env (OneOf [PitchShift True 0.5 5 32000, GaussianNoiseSNR False 0 5 20]) 0
       (example_world [0, 1, 2] 4) =
     call example_env (PitchShift True 0.5 5 32000) 0
       \<lparr>heap = [\<lparr>dtype = Float32, data = [0, 1, 2]\<rparr>], rng = example_rng 5\<rparr> \<and>
   call example_env (OneOf [PitchShift True 0.5 5 32000, GaussianNoiseSNR False 0 5 20]) 0
       (example_world [0, 1, 2] 5) =
     call example_env (GaussianNoiseSNR False 0 5 20) 0
       \<lparr>heap = [\<lparr>dtype = Float32, data = [0, 1, 2]\<rparr>], rng = example_rng 6\<rparr>"
proof -
  let ?ts = "[PitchShift True 0.5 5 32000, GaussianNoiseSNR False 0 5 20]"
  have n: "?ts \<noteq> []" by simp
  have "(4::nat) mod 2 = 0" "(5::nat) mod 2 = 1" by simp_all
  then have m: "(4::nat) mod Suc (Suc 0) = 0" "(5::nat) mod Suc (Suc 0) = Suc 0"
    by (simp_all add: numeral_2_eq_2)
  have b: "bits (rng (example_world [0, 1, 2] k) 0) = k" for k
    by (simp add: example_world_def example_rng_def)
  have d: "snd (draw (example_world [0, 1, 2] k)) =
             \<lparr>heap = [\<lparr>dtype = Float32, data = [0, 1, 2]\<rparr>], rng = example_rng (Suc k)\<rparr>" for k
    by (simp add: example_world_def draw_example)
  have e4: "?ts ! (bits (rng (example_world [0, 1, 2] 4) 0) mod length ?ts) =
              PitchShift True 0.5 5 32000"
    by (simp add: b m)
  have e5: "?ts ! (bits (rng (example_world [0, 1, 2] 5) 0) mod length ?ts) =
              GaussianNoiseSNR False 0 5 20"
    by (simp add: b m)
  have s: "Suc 4 = 5" "Suc 5 = 6" by simp_all
  note t4 = OneOf_delegates_to_drawn_child
    [OF n, of example_env 0 "example_world [0, 1, 2] 4", THEN conjunct1, unfolded e4 d s]
  note t5 = OneOf_delegates_to_drawn_child
    [OF n, of example_env 0 "example_world [0, 1, 2] 5", THEN conjunct1, unfolded e5 d s]
  show ?thesis using n t4 t5 by (intro conjI)
qed


text \<open>
  Claim C8. With \<open>max_steps > 0\<close>, \<^verbatim>\<open>PitchShift.apply\<close> shifts by a drawn
  \<open>n_steps\<close> with \<open>-max_steps \<le> n_steps < max_steps\<close>; with
  \<open>sr * max_shift_second > 0\<close>, \<^verbatim>\<open>TimeShift.apply\<close> shifts by a drawn \<open>shift\<close>
  with \<open>-sr * max_shift_second \<le> shift < sr * max_shift_second\<close>. The upper bound is
  never drawn. The integer draw maps the residues of the raw draw one-to-one onto the
  half-open range, so that every value of the range is drawn from exactly one residue.
\<close>

theorem draws_from_half_open_range:
  "(0 < max_steps \<longrightarrow>
      (\<exists>n_steps w1. randint (- max_steps) max_steps w = Inr (n_steps, w1) \<and>
         - max_steps \<le> n_steps \<and> n_steps < max_steps \<and>
         PitchShift_apply L max_steps sr y w = Inr (pitch_shift L y sr n_steps w1))) \<and>
   (0 < sr * max_shift_second \<longrightarrow>
      (\<exists>shift w1.
         randint (- sr * max_shift_second) (sr * max_shift_second) w = Inr (shift, w1) \<and>
         - sr * max_shift_second \<le> shift \<and> shift < sr * max_shift_second \<and>
         TimeShift_apply max_shift_second sr padding_mode y w =
           Inr (TimeShift_shifted padding_mode shift y w1))) \<and>
   (lo < hi \<longrightarrow>
      randint lo hi w = Inr (randint_of lo hi (bits (rng w 0)), snd (draw w)) \<and>
      bij_betw (randint_of lo hi) {0..<nat (hi - lo)} {lo..<hi})"
proof (intro conjI impI)
  assume m: "0 < max_steps"
  then have lt: "- max_steps < max_steps" by simp
  show "\<exists>n_steps w1. randint (- max_steps) max_steps w = Inr (n_steps, w1) \<and>
         - max_steps \<le> n_steps \<and> n_steps < max_steps \<and>
         PitchShift_apply L max_steps sr y w = Inr (pitch_shift L y sr n_steps w1)"
    using randint_of_range [OF lt] by (simp add: PitchShift_apply_def randint_eq [OF lt])
next
  assume m: "0 < sr * max_shift_second"
  then have lt: "- sr * max_shift_second < sr * max_shift_second" by simp
  show "\<exists>shift w1.
         randint (- sr * max_shift_second) (sr * max_shift_second) w = Inr (shift, w1) \<and>
         - sr * max_shift_second \<le> shift \<and> shift < sr * max_shift_second \<and>
         TimeShift_apply max_shift_second sr padding_mode y w =
           Inr (TimeShift_shifted padding_mode shift y w1)"
    using randint_of_range [OF lt] unfolding TimeShift_apply_def randint_eq [OF lt] by simp
next
  assume "lo < hi"
  then show "randint lo hi w = Inr (randint_of lo hi (bits (rng w 0)), snd (draw w))"
    by (rule randint_eq)
next
  assume "lo < hi"
  then show "bij_betw (randint_of lo hi) {0..<nat (hi - lo)} {lo..<hi}"
    by (rule randint_of_bij)
qed


text \<open>
  For \<^verbatim>\<open>max_steps = 5\<close> the steps are drawn from \<open>-5, \<dots>, 4\<close>, and for
  \<^verbatim>\<open>sr = 32000\<close>, \<^verbatim>\<open>max_shift_second = 2\<close> the shift from \<open>-64000, \<dots>, 63999\<close>.
\<close>

theorem draws_from_half_open_range_witness:
  "(0::int) < 5 \<and>
   (\<exists>n_steps w1. randint (- 5) 5 (example_world [1, 2, 3] 7) = Inr (n_steps, w1) \<and>
      - 5 \<le> n_steps \<and> n_steps < 5 \<and>
      PitchShift_apply example_env 5 32000 0 (example_world [1, 2, 3] 7) =
        Inr (pitch_shift example_env 0 32000 n_steps w1)) \<and>
   (0::int) < 32000 * 2 \<and>
   (\<exists>shift w1. randint (- 32000 * 2) (32000 * 2) (example_world [1, 2, 3] 7) = Inr (shift, w1) \<and>
      - 32000 * 2 \<le> shift \<and> shift < 32000 * 2 \<and>
      TimeShift_apply 2 32000 ''replace'' 0 (example_world [1, 2, 3] 7) =
        Inr (TimeShift_shifted ''replace'' shift 0 w1)) \<and>
   (- 5::int) < 5 \<and>
   bij_betw (randint_of (- 5) 5) {0..<nat (5 - (- 5))} {- 5..<5}"
proof -
  note t = draws_from_half_open_range
    [where max_steps = 5 and w = "example_world [1, 2, 3] 7" and L = example_env
       and sr = 32000 and y = 0 and max_shift_second = 2 and padding_mode = "''replace''"
       and lo = "- 5" and hi = 5]
  have 1: "(0::int) < 5" and 2: "(0::int) < 32000 * 2" and 3: "(- 5::int) < 5" by simp_all
  note a = t [THEN conjunct1, rule_format, OF 1]
  note b = t [THEN conjunct2, THEN conjunct1, rule_format, OF 2]
  note c = t [THEN conjunct2, THEN conjunct2, rule_format, OF 3, THEN conjunct2]
  show ?thesis using 1 a 2 b 3 c by (intro conjI)
qed


text \<open>
  Claim C9. Constructing \<^verbatim>\<open>TimeShift\<close> with a padding mode other than
  \<^verbatim>\<open>'replace'\<close> and \<^verbatim>\<open>'zero'\<close>, such as \<^verbatim>\<open>'bogus'\<close>, fails in the
  constructor: its \<^verbatim>\<open>assert\<close> raises AssertionError, the error the specification
  calls InvalidConfiguration. With one of the two modes construction succeeds. Whatever
  the padding mode, \<^verbatim>\<open>apply\<close> returns when \<open>sr * max_shift_second > 0\<close>, and
  otherwise raises the ValueError of the empty range of the draw: it never fails on the
  padding mode.
\<close>

theorem TimeShift_init_checks_padding_mode:
  "(padding_mode \<noteq> ''replace'' \<and> padding_mode \<noteq> ''zero'' \<longrightarrow>
      TimeShift_init a p max_shift_second sr padding_mode = Inl AssertionError) \<and>
   TimeShift_init a p max_shift_second sr ''bogus'' = Inl AssertionError \<and>
   (padding_mode = ''replace'' \<or> padding_mode = ''zero'' \<longrightarrow>
      TimeShift_init a p max_shift_second sr padding_mode =
        Inr (TimeShift a p max_shift_second sr padding_mode)) \<and>
   (0 < sr * max_shift_second \<longrightarrow>
      TimeShift_apply max_shift_second sr padding_mode y w =
        Inr (TimeShift_shifted padding_mode
               (randint_of (- sr * max_shift_second) (sr * max_shift_second) (bits (rng w 0)))
               y (snd (draw w)))) \<and>
   (sr * max_shift_second \<le> 0 \<longrightarrow>
      TimeShift_apply max_shift_second sr padding_mode y w = Inl (ValueError, w))"
proof (intro conjI impI)
  assume m: "0 < sr * max_shift_second"
  then have lt: "- sr * max_shift_second < sr * max_shift_second" by simp
  show "TimeShift_apply max_shift_second sr padding_mode y w =
        Inr (TimeShift_shifted padding_mode
               (randint_of (- sr * max_shift_second) (sr * max_shift_second) (bits (rng w 0)))
               y (snd (draw w)))"
    unfolding TimeShift_apply_def randint_eq [OF lt] by simp
next
  assume "sr * max_shift_second \<le> 0"
  then have "sr * max_shift_second \<le> - sr * max_shift_second" by simp
  then show "TimeShift_apply max_shift_second sr padding_mode y w = Inl (ValueError, w)"
    unfolding TimeShift_apply_def randint_def by simp
qed (simp_all add: TimeShift_init_def)


text \<open>
  \<^verbatim>\<open>'bogus'\<close> is rejected and \<^verbatim>\<open>'zero'\<close> accepted; \<^verbatim>\<open>apply\<close> in the
  \<^verbatim>\<open>'zero'\<close> mode returns for a range of two seconds at \<^verbatim>\<open>sr = 1\<close> and
  raises ValueError for a range of zero seconds.
\<close>

theorem TimeShift_init_checks_padding_mode_witness:
  "''bogus'' \<noteq> ''replace'' \<and> ''bogus'' \<noteq> ''zero'' \<and>
   TimeShift_init False 0.5 2 32000 ''bogus'' = Inl AssertionError \<and>
   (''zero'' = ''replace'' \<or> ''zero'' = ''zero'') \<and>
   TimeShift_init False 0.5 2 32000 ''zero'' = Inr (TimeShift False 0.5 2 32000 ''zero'') \<and>
   (0::int) < 1 * 2 \<and>
   TimeShift_apply 2 1 ''zero'' 0 (example_world [1, 2, 3] 3) =
     Inr (TimeShift_shifted ''zero''
            (randint_of (- 1 * 2) (1 * 2) (bits (rng (example_world [1, 2, 3] 3) 0)))
            0 (snd (draw (example_world [1, 2, 3] 3)))) \<and>
   (1::int) * 0 \<le> 0 \<and>
   TimeShift_apply 0 1 ''zero'' 0 (example_world [1, 2, 3] 3) =
     Inl (ValueError, example_world [1, 2, 3] 3)"
proof -
  have 1: "''bogus'' \<noteq> ''replace'' \<and> ''bogus'' \<noteq> ''zero''" by simp
  have 2: "''zero'' = ''replace'' \<or> ''zero'' = ''zero''" by simp
  have 3: "(0::int) < 1 * 2" and 4: "(1::int) * 0 \<le> 0" by simp_all
  note a = TimeShift_init_checks_padding_mode
    [where padding_mode = "''bogus''" and a = False and p = "0.5" and max_shift_second = 2
       and sr = 32000, THEN conjunct1, rule_format, OF 1]
  note b = TimeShift_init_checks_padding_mode
    [where padding_mode = "''zero''" and a = False and p = "0.5" and max_shift_second = 2
       and sr = 32000, THEN conjunct2, THEN conjunct2, THEN conjunct1, rule_format, OF 2]
  note c = TimeShift_init_checks_padding_mode
    [where padding_mode = "''zero''" and max_shift_second = 2 and sr = 1 and y = 0
       and w = "example_world [1, 2, 3] 3",
     THEN conjunct2, THEN conjunct2, THEN conjunct2, THEN conjunct1, rule_format, OF 3]
  note d = TimeShift_init_checks_padding_mode
    [where padding_mode = "''zero''" and max_shift_second = 0 and sr = 1 and y = 0
       and w = "example_world [1, 2, 3] 3",
     THEN conjunct2, THEN conjunct2, THEN conjunct2, THEN conjunct2, rule_format, OF 4]
  show ?thesis
    using 1 [THEN conjunct1] 1 [THEN conjunct2] a 2 b 3 c 4 d by (intro conjI)
qed


text \<open>
  Claim C10. No call writes to an array that was in the store before it: whether the
  call returns or raises, the store it ends in holds every array of the store it started
  in, at the same address and with the same contents. In particular the array of the
  argument \<open>y\<close> is unchanged. The slice assignments of \<^verbatim>\<open>TimeShift.apply\<close> are
  writes, but into the array that \<^verbatim>\<open>np.roll\<close> has just allocated.
\<close>

theorem call_never_writes_existing_arrays:
  "grows w (after (call L t y w)) \<and>
   (a < length (heap w) \<longrightarrow> arr (after (call L t y w)) a = arr w a)"
proof -
  have "grows w (after (call L t y w))"
    using kept_call(1) [of y w L t]
    by (cases "call L t y w") (auto simp: kept_def after_def)
  then show ?thesis by (simp add: grows_arr)
qed


text \<open>
  After the example pipeline, which returns \<open>[0, 1, 2]\<close>, the waveform at reference 0
  is still \<open>[1, 2, 3]\<close>.
\<close>

theorem call_never_writes_existing_arrays_witness:
  "(0::nat) < length (heap (example_world [1, 2, 3] 3)) \<and>
   arr (after (call example_env example_pipeline 0 (example_world [1, 2, 3] 3))) 0 =
     \<lparr>dtype = Float32, data = [1, 2, 3]\<rparr> \<and>
   returned (call example_env example_pipeline 0 (example_world [1, 2, 3] 3)) =
     Some \<lparr>dtype = Float32, data = [0, 1, 2]\<rparr>"
proof -
  have "arr (example_world [1, 2, 3] 3) 0 = \<lparr>dtype = Float32, data = [1, 2, 3]\<rparr>"
    by (simp add: arr_def example_world_def)
  moreover have "(0::nat) < length (heap (example_world [1, 2, 3] 3))"
    by (simp add: example_world_def)
  moreover have "returned (call example_env example_pipeline 0 (example_world [1, 2, 3] 3)) =
     Some \<lparr>dtype = Float32, data = [0, 1, 2]\<rparr>"
    by (simp add: example_pipeline_run returned_def arr_def)
  ultimately show ?thesis
    using call_never_writes_existing_arrays
      [of "example_world [1, 2, 3] 3" example_env example_pipeline 0 0]
    by simp
qed

end
